theory Spec2Isabelle
  imports Complex_Main "HOL-Library.Char_ord" "HOL-Library.List_Lexorder" "HOL-Library.AList"
begin

section \<open>Python strings and the regular expressions of the scrapers\<close>

text \<open>
  Strings are lists of characters. The scraped text is modelled as ASCII: the character
  classes below are the ASCII parts of Python's \<^verbatim>\<open>str.isspace\<close>, \<^verbatim>\<open>\s\<close>,
  \<^verbatim>\<open>\d\<close>, \<^verbatim>\<open>\w\<close>, \<^verbatim>\<open>str.upper\<close> and \<^verbatim>\<open>str.lower\<close>; a
  character outside ASCII is in none of the classes and is left alone by the case
  conversions. Python compares strings lexicographically by code point, which is the order
  of \<^typ>\<open>char list\<close> here.
\<close>

definition is_space :: "char \<Rightarrow> bool" where
  \<comment> \<open>tab, newline, vertical tab, form feed, carriage return, the separators
      \<^verbatim>\<open>\x1c\<close> to \<^verbatim>\<open>\x1f\<close>, and the space\<close>
  "is_space c \<longleftrightarrow> (CHR 0x09 \<le> c \<and> c \<le> CHR 0x0D) \<or> (CHR 0x1C \<le> c \<and> c \<le> CHR 0x20)"

definition is_upper :: "char \<Rightarrow> bool" where
  "is_upper c \<longleftrightarrow> CHR ''A'' \<le> c \<and> c \<le> CHR ''Z''"

definition is_lower :: "char \<Rightarrow> bool" where
  "is_lower c \<longleftrightarrow> CHR ''a'' \<le> c \<and> c \<le> CHR ''z''"

definition is_alpha :: "char \<Rightarrow> bool" where
  "is_alpha c \<longleftrightarrow> is_upper c \<or> is_lower c"

definition is_digit :: "char \<Rightarrow> bool" where
  "is_digit c \<longleftrightarrow> CHR ''0'' \<le> c \<and> c \<le> CHR ''9''"

definition is_word :: "char \<Rightarrow> bool" where
  \<comment> \<open>the class \<^verbatim>\<open>\w\<close>\<close>
  "is_word c \<longleftrightarrow> is_alpha c \<or> is_digit c \<or> c = CHR ''_''"

definition upper_char :: "char \<Rightarrow> char" where
  "upper_char c = (if is_lower c then char_of (of_char c - (32::nat)) else c)"

definition lower_char :: "char \<Rightarrow> char" where
  "lower_char c = (if is_upper c then char_of (of_char c + (32::nat)) else c)"

definition upper :: "string \<Rightarrow> string" where
  "upper s = map upper_char s"

definition lower :: "string \<Rightarrow> string" where
  "lower s = map lower_char s"

definition strip :: "string \<Rightarrow> string" where
  \<comment> \<open>\<^verbatim>\<open>s.strip()\<close>\<close>
  "strip s = rev (dropWhile is_space (rev (dropWhile is_space s)))"

definition remove_spaces :: "string \<Rightarrow> string" where
  \<comment> \<open>\<^verbatim>\<open>s.replace(" ", "")\<close>\<close>
  "remove_spaces s = filter (\<lambda>c. c \<noteq> CHR '' '') s"

definition isalpha :: "string \<Rightarrow> bool" where
  "isalpha s \<longleftrightarrow> s \<noteq> [] \<and> list_all is_alpha s"

definition isdigit :: "string \<Rightarrow> bool" where
  "isdigit s \<longleftrightarrow> s \<noteq> [] \<and> list_all is_digit s"

fun startswith :: "string \<Rightarrow> string \<Rightarrow> bool" where
  "startswith s [] = True"
| "startswith [] (p # ps) = False"
| "startswith (c # cs) (p # ps) = (c = p \<and> startswith cs ps)"

fun contains :: "string \<Rightarrow> string \<Rightarrow> bool" where
  \<comment> \<open>\<^verbatim>\<open>word in s\<close>\<close>
  "contains [] w = (w = [])"
| "contains (c # cs) w = (startswith (c # cs) w \<or> contains cs w)"

section \<open>The course-code reconciler (rmp\_scraper.py)\<close>

datatype error = TypeError | KeyError | AttributeError | ValueError

definition cleaned_code :: "string \<Rightarrow> string" where
  \<comment> \<open>\<^verbatim>\<open>raw_code.strip().replace(" ", "").upper()\<close>\<close>
  "cleaned_code raw_code = upper (remove_spaces (strip raw_code))"

definition prefix_match :: "string \<Rightarrow> string option" where
  \<comment> \<open>\<^verbatim>\<open>re.match(r"^[A-Z]+", cleaned)\<close>, with the matched text\<close>
  "prefix_match cleaned =
     (let p = takeWhile is_upper cleaned in if p = [] then None else Some p)"

fun digit_runs :: "string \<Rightarrow> string \<Rightarrow> string list" where
  "digit_runs cur [] = (if cur = [] then [] else [cur])"
| "digit_runs cur (c # cs) =
     (if is_digit c then digit_runs (cur @ [c]) cs
      else if cur = [] then digit_runs [] cs
      else cur # digit_runs [] cs)"

definition findall_digits :: "string \<Rightarrow> string list" where
  \<comment> \<open>\<^verbatim>\<open>re.findall(r"\d+", cleaned)\<close>: the maximal runs of digits, left to right\<close>
  "findall_digits cleaned = digit_runs [] cleaned"

definition candidate :: "string \<Rightarrow> string \<Rightarrow> string" where
  \<comment> \<open>\<^verbatim>\<open>f"{dept} {num}"\<close>\<close>
  "candidate dept num = dept @ '' '' @ num"

text \<open>
  The three sets of the derivation pass are lists without repetition;
  \<^verbatim>\<open>s.add(x)\<close> is \<^const>\<open>List.insert\<close>. Python iterates over a set in an
  order of its own; the order in which the department codes are visited only permutes the
  list of matches, whose length is all that the mapping pass reads.
\<close>

record derived =
  valid_dept_codes :: "string list"
  valid_num_codes :: "string list"
  derived_valid_courses :: "string list"

definition add_prefix :: "string list \<Rightarrow> string \<Rightarrow> derived \<Rightarrow> derived" where
  \<comment> \<open>the \<^verbatim>\<open>if prefix_match:\<close> block of the first loop\<close>
  "add_prefix valid_courses cleaned d =
     (case prefix_match cleaned of
        None \<Rightarrow> d
      | Some prefix \<Rightarrow>
          if list_ex (\<lambda>valid. startswith (remove_spaces valid) prefix) valid_courses
          then d\<lparr>valid_dept_codes := List.insert prefix (valid_dept_codes d)\<rparr>
          else d)"

definition add_number :: "string list \<Rightarrow> string list \<Rightarrow> derived \<Rightarrow> string \<Rightarrow> derived" where
  \<comment> \<open>the body of \<^verbatim>\<open>for num in number_parts\<close>; the department codes iterated over
      are those accepted so far\<close>
  "add_number valid_courses depts d num =
     (if 3 \<le> length num then
        fold (\<lambda>dept d'.
                if candidate dept (take 3 num) \<in> set valid_courses
                then d'\<lparr>valid_num_codes := List.insert (take 3 num) (valid_num_codes d'),
                        derived_valid_courses :=
                          List.insert (candidate dept (take 3 num)) (derived_valid_courses d')\<rparr>
                else d')
             depts d
      else d)"

definition derive_step :: "string list \<Rightarrow> derived \<Rightarrow> string \<Rightarrow> derived" where
  "derive_step valid_courses d raw_code =
     (let cleaned = cleaned_code raw_code;
          d1 = add_prefix valid_courses cleaned d
      in fold (\<lambda>num d'. add_number valid_courses (valid_dept_codes d1) d' num)
              (findall_digits cleaned) d1)"

definition derivation_pass :: "string list \<Rightarrow> string list \<Rightarrow> derived" where
  "derivation_pass course_codes valid_courses =
     fold (\<lambda>raw_code d. derive_step valid_courses d raw_code) course_codes
          \<lparr>valid_dept_codes = [], valid_num_codes = [], derived_valid_courses = []\<rparr>"

definition valid_courses_no_space :: "string list \<Rightarrow> (string \<rightharpoonup> string)" where
  \<comment> \<open>the dict comprehension: a later course overwrites an earlier one with the same key\<close>
  "valid_courses_no_space valid_courses =
     map_of (rev (map (\<lambda>course. (upper (remove_spaces course), course)) valid_courses))"

fun chunks3 :: "string \<Rightarrow> string list" where
  \<comment> \<open>\<^verbatim>\<open>suffix[idx:idx+3]\<close> for \<^verbatim>\<open>idx = 0, 3, 6, ...\<close> below \<^verbatim>\<open>len(suffix)\<close>\<close>
  "chunks3 [] = []"
| "chunks3 (a # b # c # rest) = [a, b, c] # chunks3 rest"
| "chunks3 s = [s]"

definition dept_matches :: "derived \<Rightarrow> string \<Rightarrow> string list" where
  \<comment> \<open>\<^verbatim>\<open>for dept in valid_dept_codes: ... if candidate in derived_valid_courses:
      matches.append(candidate)\<close>\<close>
  "dept_matches d num =
     filter (\<lambda>c. c \<in> set (derived_valid_courses d))
            (map (\<lambda>dept. candidate dept num) (valid_dept_codes d))"

definition find_matches :: "string list \<Rightarrow> derived \<Rightarrow> string \<Rightarrow> string list option" where
  \<comment> \<open>the value of \<^verbatim>\<open>matches\<close> before its length is taken; \<^const>\<open>None\<close> is
      Python's \<^verbatim>\<open>None\<close>\<close>
  "find_matches valid_courses d raw_code =
     (let cleaned = cleaned_code raw_code in
      case valid_courses_no_space valid_courses cleaned of
        Some course \<Rightarrow> Some [course]
      | None \<Rightarrow>
          (let prefix_m = prefix_match cleaned;
               number_parts = findall_digits cleaned in
           if prefix_m \<noteq> None \<and> number_parts \<noteq> [] then
             (let prefix = the prefix_m;
                  suffix = drop (length prefix) cleaned
              in Some (concat (map (dept_matches d) (chunks3 suffix))))
           else if isdigit cleaned \<and> length cleaned = 3 then
             (if cleaned \<in> set (valid_num_codes d) then Some (dept_matches d cleaned)
              else None)
           else if isalpha cleaned then None
           else None))"

text \<open>
  The returned dict is an association list in insertion order: \<^verbatim>\<open>d[k] = v\<close> is
  \<^const>\<open>AList.update\<close> and a lookup is \<^const>\<open>map_of\<close>. A value is
  \<^term>\<open>Some [c]\<close> for a singleton list and \<^const>\<open>None\<close> for Python's
  \<^verbatim>\<open>None\<close>.
\<close>

type_synonym course_mapping = "(string \<times> string list option) list"

fun mapping_pass ::
  "string list \<Rightarrow> derived \<Rightarrow> course_mapping \<Rightarrow> string list \<Rightarrow> error + course_mapping" where
  \<comment> \<open>the second loop; \<^verbatim>\<open>len(matches)\<close> raises TypeError when \<^verbatim>\<open>matches\<close>
      is \<^verbatim>\<open>None\<close>\<close>
  "mapping_pass valid_courses d course_mapping [] = Inr course_mapping"
| "mapping_pass valid_courses d course_mapping (raw_code # rest) =
     (case find_matches valid_courses d raw_code of
        None \<Rightarrow> Inl TypeError
      | Some matches \<Rightarrow>
          if length matches = 1
          then mapping_pass valid_courses d (AList.update raw_code (Some matches) course_mapping) rest
          else mapping_pass valid_courses d (AList.update raw_code None course_mapping) rest)"

definition clean_and_map_course_codes :: "string list \<Rightarrow> string list \<Rightarrow> error + course_mapping" where
  \<comment> \<open>\<open>course_codes\<close> lists the set of raw codes in the order the two loops visit it\<close>
  "clean_and_map_course_codes course_codes valid_courses =
     mapping_pass valid_courses (derivation_pass course_codes valid_courses) [] course_codes"

section \<open>Collecting the professors and choosing whom to scrape (rmp\_scraper.py)\<close>

record professor =
  id' :: string
  name :: string
  department :: string
  school :: string
  overall_rating :: string
  num_ratings :: int
  url :: string

text \<open>
  A teacher card as the browser hands it over: \<^const>\<open>None\<close> when reading one of the
  card's elements raised, otherwise the texts read, the rating count after
  \<^verbatim>\<open>int(num_ratings.split()[0].replace(",", ""))\<close> (\<^const>\<open>None\<close> when that raised)
  and the \<^verbatim>\<open>href\<close> attribute (\<^const>\<open>None\<close> when the card has none).
\<close>

record card_texts =
  card_name :: string
  card_department :: string
  card_school :: string
  card_rating :: string
  card_num_ratings :: "int option"
  card_href :: "string option"

type_synonym card = "card_texts option"

definition rstrip_slash :: "string \<Rightarrow> string" where
  \<comment> \<open>\<^verbatim>\<open>prof_url.rstrip('/')\<close>\<close>
  "rstrip_slash s = rev (dropWhile (\<lambda>c. c = CHR ''/'') (rev s))"

definition last_segment :: "string \<Rightarrow> string" where
  \<comment> \<open>\<^verbatim>\<open>s.split('/')[-1]\<close>\<close>
  "last_segment s = rev (takeWhile (\<lambda>c. c \<noteq> CHR ''/'') (rev s))"

definition extract_card :: "card \<Rightarrow> professor option" where
  \<comment> \<open>the \<^verbatim>\<open>try\<close> block up to the id; \<^const>\<open>None\<close> when it raises, and the
      card is then skipped\<close>
  "extract_card crd =
     (case crd of
        None \<Rightarrow> None
      | Some c \<Rightarrow>
          (case card_num_ratings c of
             None \<Rightarrow> None
           | Some n \<Rightarrow>
               (case card_href c of
                  None \<Rightarrow> None
                | Some href \<Rightarrow>
                    (let prof_url = (if startswith href ''/''
                                     then ''https://www.ratemyprofessors.com'' @ href else href);
                         prof_id = last_segment (rstrip_slash prof_url)
                     in Some \<lparr>id' = prof_id, name = card_name c, department = card_department c,
                               school = card_school c, overall_rating = card_rating c,
                               num_ratings = n, url = prof_url\<rparr>))))"

record collecting =
  professors :: "professor list"
  seen_professor_ids :: "string set"

definition add_card :: "collecting \<Rightarrow> card \<Rightarrow> collecting" where
  \<comment> \<open>the body of \<^verbatim>\<open>for card in professor_cards[previous_count:]\<close>\<close>
  "add_card st crd =
     (case extract_card crd of
        None \<Rightarrow> st
      | Some prof \<Rightarrow>
          if id' prof \<notin> seen_professor_ids st
          then \<lparr>professors = professors st @ [prof],
                seen_professor_ids = insert (id' prof) (seen_professor_ids st)\<rparr>
          else st)"

text \<open>
  One round of the \<^verbatim>\<open>while True\<close> loop sees the cards found on the page so far
  and whether a displayed and enabled ``Show More'' button was found. The rounds the browser
  offers are a list; the loop has not returned (\<^const>\<open>None\<close>) when the list ends before
  a \<^verbatim>\<open>break\<close>.
\<close>

fun collect_professors ::
  "bool \<Rightarrow> collecting \<Rightarrow> nat \<Rightarrow> (card list \<times> bool) list \<Rightarrow> professor list option" where
  "collect_professors testing st previous_count [] = None"
| "collect_professors testing st previous_count ((professor_cards, show_more) # rounds) =
     (let st' = fold (\<lambda>crd st. add_card st crd) (drop previous_count professor_cards) st
      in if \<not> show_more then Some (professors st')
         else if testing \<and> 20 < length (professors st') then Some (professors st')
         else collect_professors testing st' (length professor_cards) rounds)"

definition by_name :: "professor list \<Rightarrow> (string \<times> professor) list" where
  \<comment> \<open>\<^verbatim>\<open>{prof["name"]: prof for prof in professors}\<close>: a dict keeps the position of a
      key's first insertion and its last value\<close>
  "by_name profs = fold (\<lambda>prof d. AList.update (professor.name prof) prof d) profs []"

definition scrape_professors :: "bool \<Rightarrow> (card list \<times> bool) list \<Rightarrow> professor list option" where
  "scrape_professors testing rounds =
     map_option (\<lambda>profs. map snd (by_name profs))
       (collect_professors testing \<lparr>professors = [], seen_professor_ids = {}\<rparr> 0 rounds)"

text \<open>A row of the \<^verbatim>\<open>professors\<close> table as selected; a column may be null.\<close>

record professor_row =
  name :: string
  num_ratings :: "int option"
  latest_comment_date :: "string option"

definition previous_professors_dict ::
  "professor_row list \<Rightarrow> (string \<rightharpoonup> int option \<times> string option)" where
  "previous_professors_dict previous_professors =
     map_of (rev (map (\<lambda>prof. (name prof, (num_ratings prof, latest_comment_date prof)))
                      (filter (\<lambda>prof. name prof \<noteq> ''general_prof'') previous_professors)))"

record professor_to_scrape = professor +
  latest_comment_date :: "string option"

definition attach :: "professor \<Rightarrow> string option \<Rightarrow> professor_to_scrape" where
  \<comment> \<open>\<^verbatim>\<open>prof["latest_comment_date"] = date\<close>\<close>
  "attach prof date = professor.extend prof (professor_to_scrape.fields date)"

fun to_scrape_loop ::
  "(string \<rightharpoonup> int option \<times> string option) \<Rightarrow> professor_to_scrape list \<Rightarrow> professor list
   \<Rightarrow> professor_to_scrape list" where
  "to_scrape_loop prev professors_to_scrape [] = professors_to_scrape"
| "to_scrape_loop prev professors_to_scrape (prof # rest) =
     (case prev (professor.name prof) of
        Some (stored_num_ratings, stored_date) \<Rightarrow>
          if Some (professor.num_ratings prof) \<noteq> stored_num_ratings
          then to_scrape_loop prev (professors_to_scrape @ [attach prof stored_date]) rest
          else to_scrape_loop prev professors_to_scrape rest
      | None \<Rightarrow> to_scrape_loop prev (professors_to_scrape @ [attach prof None]) rest)"

definition to_scrape_professor :: "professor_row list \<Rightarrow> professor list \<Rightarrow> professor_to_scrape list" where
  \<comment> \<open>\<open>previous_professors\<close> is what the select on the \<^verbatim>\<open>professors\<close> table
      returns\<close>
  "to_scrape_professor previous_professors profs =
     to_scrape_loop (previous_professors_dict previous_professors) [] profs"

section \<open>Scraping one professor's reviews (rmp\_scraper.py)\<close>

text \<open>
  The library calls whose results the scraper only passes on are parameters: Python's
  \<^verbatim>\<open>float(text)\<close> and \<^verbatim>\<open>datetime.strptime(date, "%b %d, %Y").date().isoformat()\<close>,
  each \<^const>\<open>None\<close> where the call raises ValueError, and \<^verbatim>\<open>detect_sentiment\<close>,
  which rests on TextBlob. Floating-point numbers are values of a type \<open>'f\<close> left open.
\<close>

record 'f library =
  float :: "string \<Rightarrow> 'f option"
  strptime_isoformat :: "string \<Rightarrow> string option"
  detect_sentiment :: "string \<Rightarrow> 'f \<times> string"

definition is_valid_comment :: "string \<Rightarrow> bool" where
  "is_valid_comment comment \<longleftrightarrow> \<not> (comment = [] \<or> length comment < 10)"

fun sub_spaces :: "bool \<Rightarrow> string \<Rightarrow> string" where
  \<comment> \<open>\<^verbatim>\<open>re.sub(r"\s+", " ", s)\<close>; the flag says that the run of whitespace being read
      has been replaced already\<close>
  "sub_spaces in_run [] = []"
| "sub_spaces in_run (c # cs) =
     (if is_space c then (if in_run then sub_spaces True cs else CHR '' '' # sub_spaces True cs)
      else c # sub_spaces False cs)"

definition normalize_comment :: "string \<Rightarrow> string" where
  "normalize_comment text = sub_spaces False (lower (strip text))"

fun split_lines :: "string \<Rightarrow> string \<Rightarrow> string list" where
  "split_lines cur [] = [cur]"
| "split_lines cur (c # cs) =
     (if c = CHR 0x0A then cur # split_lines [] cs else split_lines (cur @ [c]) cs)"

definition split_newline :: "string \<Rightarrow> string list" where
  \<comment> \<open>\<^verbatim>\<open>menu_text.split("\n")\<close>, never empty\<close>
  "split_newline s = split_lines [] s"

function remove_counts :: "string \<Rightarrow> string" where
  \<comment> \<open>\<^verbatim>\<open>re.sub(r"\(\d+\)", "", course)\<close>\<close>
  "remove_counts [] = []"
| "remove_counts (c # cs) =
     (if c = CHR ''('' \<and> takeWhile is_digit cs \<noteq> [] \<and> startswith (dropWhile is_digit cs) '')''
      then remove_counts (tl (dropWhile is_digit cs))
      else c # remove_counts cs)"
  by pat_completeness auto
termination
proof (relation "measure length")
  show "wf (measure length)" by simp
next
  fix c :: char and cs :: string
  have "length (tl (dropWhile is_digit cs)) \<le> length cs"
    using length_dropWhile_le [of is_digit cs] by simp
  then show "(tl (dropWhile is_digit cs), c # cs) \<in> measure length" by simp
next
  fix c :: char and cs :: string
  show "(cs, c # cs) \<in> measure length" by simp
qed

fun remove_ordinals :: "string \<Rightarrow> string" where
  \<comment> \<open>\<^verbatim>\<open>re.sub(r"(\d+)(st|nd|rd|th)", r"\1", date)\<close>: the suffix goes where it follows
      a digit\<close>
  "remove_ordinals [] = []"
| "remove_ordinals [c] = [c]"
| "remove_ordinals [c, d] = [c, d]"
| "remove_ordinals (c # d # e # cs) =
     (if is_digit c \<and> [d, e] \<in> set [''st'', ''nd'', ''rd'', ''th'']
      then c # remove_ordinals cs
      else c # remove_ordinals (d # e # cs))"

definition all_courses :: "string \<Rightarrow> string list" where
  \<comment> \<open>the elements of the set built from the dropdown's text, each once, listed as they
      were first added; the order in which Python then visits the set is not fixed by this
      list\<close>
  "all_courses menu_text =
     fold (\<lambda>course acc.
             let cleaned = strip (remove_counts course)
             in if cleaned \<noteq> [] \<and> lower cleaned \<noteq> ''all courses'' \<and> cleaned \<notin> set acc
                then acc @ [cleaned] else acc)
          (split_newline menu_text) []"

text \<open>
  A list item of the ratings list as the selectors see it: whether the rating div is there
  (an advertisement has none), and the text of each element looked up, \<^const>\<open>None\<close>
  where \<^verbatim>\<open>select_one\<close> finds nothing.
\<close>

record review_block =
  rating_div :: bool
  timestamp_div :: "string option"
  class_div :: "string option"
  quality_elem :: "string option"
  difficulty_elem :: "string option"
  comments_div :: "string option"
  tag_spans :: "string list"

record 'f parsed_review =
  date :: string
  quality :: "'f option"
  difficulty :: "'f option"
  comment :: string
  tags :: "string list"
  sentiment_score :: 'f
  sentiment_label :: string
  course_code :: string

datatype 'f action = Stop | Skip | Append "'f parsed_review"

definition rating_value :: "'f library \<Rightarrow> string option \<Rightarrow> 'f option \<Rightarrow> 'f option option" where
  \<comment> \<open>\<^verbatim>\<open>float(elem.text.strip())\<close> if the element is there, else the fallback; the outer
      \<^const>\<open>None\<close> is the ValueError\<close>
  "rating_value lib elem fallback =
     (case elem of
        None \<Rightarrow> Some fallback
      | Some t \<Rightarrow> (case float lib (strip t) of None \<Rightarrow> None | Some v \<Rightarrow> Some (Some v)))"

record 'f review_context =
  watermark :: "string option"  \<comment> \<open>\<^verbatim>\<open>prof["latest_comment_date"]\<close>\<close>
  course_code_mappings :: course_mapping
  course_var :: string  \<comment> \<open>the variable \<^verbatim>\<open>course\<close>, last bound by the loop over the dropdown\<close>
  fallback_quality :: "'f option"  \<comment> \<open>\<^verbatim>\<open>overall_rating\<close>\<close>
  fallback_difficulty :: "'f option"  \<comment> \<open>\<^verbatim>\<open>level_of_difficulty\<close>\<close>
  existing_reviews_set :: "(string \<times> string) set"

definition process_block ::
  "'f library \<Rightarrow> 'f review_context \<Rightarrow> (string \<times> string) set \<Rightarrow> review_block \<Rightarrow> 'f action" where
  \<comment> \<open>the body of \<^verbatim>\<open>for block in review_items\<close>; an exception inside the
      \<^verbatim>\<open>try\<close> skips the review. The looked-up \<^verbatim>\<open>course_codes\<close>, and the
      \<^verbatim>\<open>["general_course"]\<close> that replaces an empty one, are not read again: the
      review is built with \<^verbatim>\<open>"course_code": course\<close>.\<close>
  "process_block lib ctx seen block =
     (if \<not> rating_div block then Skip
      else case timestamp_div block of
        None \<Rightarrow> Skip
      | Some ts \<Rightarrow>
      (case strptime_isoformat lib (remove_ordinals (strip ts)) of
        None \<Rightarrow> Skip
      | Some date' \<Rightarrow>
      if (case watermark ctx of None \<Rightarrow> False | Some latest \<Rightarrow> date' \<le> latest) then Stop
      else case class_div block of
        None \<Rightarrow> Skip
      | Some header \<Rightarrow>
      (case map_of (course_code_mappings ctx) (strip header) of
        None \<Rightarrow> Skip
      | Some course_codes \<Rightarrow>
      (case rating_value lib (quality_elem block) (fallback_quality ctx) of
        None \<Rightarrow> Skip
      | Some quality' \<Rightarrow>
      (case rating_value lib (difficulty_elem block) (fallback_difficulty ctx) of
        None \<Rightarrow> Skip
      | Some difficulty' \<Rightarrow>
      (case comments_div block of
        None \<Rightarrow> Skip
      | Some c \<Rightarrow>
      (let comment' = strip c in
       if \<not> is_valid_comment comment' then Skip
       else
         let (score, label) = detect_sentiment lib comment';
             review_tags = map strip (tag_spans block);
             normalized_comment = normalize_comment comment'
         in if (normalized_comment, date') \<in> existing_reviews_set ctx
               \<or> (normalized_comment, date') \<in> seen
            then Skip
            else Append \<lparr>date = date', quality = quality', difficulty = difficulty',
                          comment = normalized_comment, tags = review_tags,
                          sentiment_score = score, sentiment_label = label,
                          course_code = course_var ctx\<rparr>)))))))"

record 'f collected =
  reviews :: "'f parsed_review list"
  seen_reviews_set :: "(string \<times> string) set"

fun process_blocks ::
  "'f library \<Rightarrow> 'f review_context \<Rightarrow> 'f collected \<Rightarrow> review_block list \<Rightarrow> bool \<times> 'f collected" where
  \<comment> \<open>the \<^verbatim>\<open>for\<close> loop; the flag is \<^verbatim>\<open>stop_scraping\<close>\<close>
  "process_blocks lib ctx st [] = (False, st)"
| "process_blocks lib ctx st (block # rest) =
     (case process_block lib ctx (seen_reviews_set st) block of
        Stop \<Rightarrow> (True, st)
      | Skip \<Rightarrow> process_blocks lib ctx st rest
      | Append parsed_review \<Rightarrow>
          process_blocks lib ctx
            \<lparr>reviews = reviews st @ [parsed_review],
             seen_reviews_set = insert (comment parsed_review, date parsed_review) (seen_reviews_set st)\<rparr>
            rest)"

text \<open>
  The \<^verbatim>\<open>while True\<close> loop reads the same parsed page in every round, since
  \<^verbatim>\<open>soup\<close> is not parsed again after a click. What the browser says about the
  ``Load More Ratings'' button, round by round, is a list of booleans (found, displayed and
  enabled). The result is the reviews collected and whether the loop has left; it has not
  when the list ends where the button would be looked up.
\<close>

fun review_loop ::
  "'f library \<Rightarrow> 'f review_context \<Rightarrow> review_block list \<Rightarrow> 'f collected \<Rightarrow> bool list
   \<Rightarrow> bool \<times> 'f collected" where
  "review_loop lib ctx review_items st [] =
     (case process_blocks lib ctx st review_items of (stop_scraping, st') \<Rightarrow> (stop_scraping, st'))"
| "review_loop lib ctx review_items st (load_more # rounds) =
     (case process_blocks lib ctx st review_items of
        (stop_scraping, st') \<Rightarrow>
          if stop_scraping then (True, st')
          else if load_more then review_loop lib ctx review_items st' rounds
          else (True, st'))"

definition collect_reviews ::
  "'f library \<Rightarrow> 'f review_context \<Rightarrow> bool \<Rightarrow> review_block list \<Rightarrow> bool list
   \<Rightarrow> bool \<times> 'f parsed_review list" where
  \<comment> \<open>from \<^verbatim>\<open>reviews = []\<close> to the end of the \<^verbatim>\<open>while\<close> loop\<close>
  "collect_reviews lib ctx has_reviews review_items rounds =
     (if \<not> has_reviews then (True, [])
      else case review_loop lib ctx review_items \<lparr>reviews = [], seen_reviews_set = {}\<rparr> rounds of
             (left, st) \<Rightarrow> (left, reviews st))"

text \<open>
  The professor's page once loaded: the text of the rating numerator (\<^const>\<open>None\<close>
  if the element is missing), the texts of the feedback numbers and of the top tags, the
  text of the opened course dropdown, and the items of the ratings list.
\<close>

record page =
  rating_elem :: "string option"
  feedback_numbers :: "string list"
  top_tag_spans :: "string list"
  menu_text :: string
  review_items :: "review_block list"

definition safe_float :: "'f library \<Rightarrow> string option \<Rightarrow> 'f option" where
  \<comment> \<open>\<^verbatim>\<open>float(None)\<close> raises TypeError, which is caught as well\<close>
  "safe_float lib text = (case text of None \<Rightarrow> None | Some t \<Rightarrow> float lib t)"

definition strip_percent :: "string \<Rightarrow> string" where
  \<comment> \<open>\<^verbatim>\<open>s.strip('%')\<close>\<close>
  "strip_percent s =
     rev (dropWhile (\<lambda>c. c = CHR ''%'') (rev (dropWhile (\<lambda>c. c = CHR ''%'') s)))"

record 'f updated_prof =
  id' :: string
  name :: string
  overall_rating :: "'f option"
  percent_retake :: "'f option"
  level_of_difficulty :: "'f option"
  professor_tags :: "string list"
  latest_comment_date :: "string option"
  num_ratings :: int
  url :: string

record 'f comment_data =
  text' :: string
  source :: string
  course_code :: string
  professor_name :: string
  source_url :: string
  tags :: "string list"
  created_at :: string
  quality_rating :: "'f option"
  sentiment_score :: 'f
  sentiment_label :: string
  difficulty_rating :: "'f option"

text \<open>
  \<^verbatim>\<open>scrape_professor_comments\<close> from the parsed page on. It returns what it writes: the
  row upserted into \<^verbatim>\<open>professors\<close> and the batch inserted into
  \<^verbatim>\<open>rag_chunks\<close> (empty when there is no insert). \<open>response\<close> holds the
  \<^verbatim>\<open>(text, created_at)\<close> pairs stored for the professor. \<^term>\<open>Inl e\<close>: the call
  raised; \<^term>\<open>Inr None\<close>: the review loop has not left within the rounds given.

  \<^verbatim>\<open>all_courses\<close> is a Python set of strings, which the reconciler visits in hash
  order, and the outcome of the reconciler depends on that order. The order is the
  parameter \<open>set_order\<close>: it turns the listed elements of the set into the sequence in
  which the two loops of the reconciler visit them.
\<close>

definition scrape_professor_comments ::
  "'f library \<Rightarrow> (string list \<Rightarrow> string list) \<Rightarrow> professor_to_scrape \<Rightarrow> string list \<Rightarrow> page
   \<Rightarrow> (string \<times> string) list \<Rightarrow> bool list
   \<Rightarrow> error + ('f updated_prof \<times> 'f comment_data list) option" where
  "scrape_professor_comments lib set_order prof valid_courses pg response rounds =
     (let has_reviews = (0 < professor.num_ratings prof);
          overall = (if has_reviews then safe_float lib (map_option strip (rating_elem pg)) else None);
          percent_take_again =
            (if has_reviews \<and> 0 < length (feedback_numbers pg)
             then safe_float lib (Some (strip_percent (feedback_numbers pg ! 0))) else None);
          level = (if has_reviews \<and> 1 < length (feedback_numbers pg)
                   then safe_float lib (Some (strip (feedback_numbers pg ! 1))) else None);
          top_tags = map strip (top_tag_spans pg);
          raw_courses = split_newline (menu_text pg)
      in case clean_and_map_course_codes (set_order (all_courses (menu_text pg))) valid_courses of
           Inl e \<Rightarrow> Inl e
         | Inr mappings \<Rightarrow>
             (let ctx = \<lparr>watermark = professor_to_scrape.latest_comment_date prof,
                        course_code_mappings = mappings,
                        course_var = last raw_courses,
                        fallback_quality = overall,
                        fallback_difficulty = level,
                        existing_reviews_set = set (map (\<lambda>(t, created). (strip t, created)) response)\<rparr>
              in case collect_reviews lib ctx has_reviews (review_items pg) rounds of
                   (False, revs) \<Rightarrow> Inr None
                 | (True, revs) \<Rightarrow>
                     Inr (Some
                       (\<lparr>id' = professor.id' prof, name = professor.name prof,
                         overall_rating = overall, percent_retake = percent_take_again,
                         level_of_difficulty = level, professor_tags = top_tags,
                         latest_comment_date =
                           (case revs of [] \<Rightarrow> None | r # _ \<Rightarrow> Some (date r)),
                         num_ratings = professor.num_ratings prof, url = professor.url prof\<rparr>,
                        map (\<lambda>review.
                               \<lparr>text' = comment review, source = ''ratemyprofessors'',
                                course_code = parsed_review.course_code review,
                                professor_name = professor.name prof,
                                source_url = professor.url prof,
                                tags = parsed_review.tags review,
                                created_at = date review,
                                quality_rating = quality review,
                                sentiment_score = parsed_review.sentiment_score review,
                                sentiment_label = parsed_review.sentiment_label review,
                                difficulty_rating = difficulty review\<rparr>)
                            revs))))"

section \<open>Upserting the course catalogue (course-scraper.py)\<close>

record course =
  course_code :: string
  course_name :: "string option"
  course_description :: "string option"
  offering_faculty :: "string option"
  learning_hours :: "string option"
  course_learning_outcomes :: "string list"
  course_requirements :: "string option"
  course_equivalencies :: "string option"
  course_units :: "string option"

text \<open>
  A DataFrame is the list of its rows, each with its index label. Every append in
  \<^verbatim>\<open>scrape_all_course\<close> is a \<^verbatim>\<open>pd.concat(..., ignore_index=True)\<close>, which
  numbers the rows from 0; \<^verbatim>\<open>drop_duplicates(subset=["course_code"], inplace=True)\<close>
  keeps the first row of each course code and leaves the labels of the rows it keeps as
  they are.
\<close>

type_synonym dataframe = "(int \<times> course) list"

definition concat_ignore_index :: "course list \<Rightarrow> dataframe" where
  "concat_ignore_index rows = zip (map int [0..<length rows]) rows"

fun drop_duplicates :: "string set \<Rightarrow> dataframe \<Rightarrow> dataframe" where
  "drop_duplicates seen [] = []"
| "drop_duplicates seen ((index, row) # rest) =
     (if course_code row \<in> seen then drop_duplicates seen rest
      else (index, row) # drop_duplicates (insert (course_code row) seen) rest)"

definition scrape_all_course :: "course list \<Rightarrow> dataframe" where
  \<comment> \<open>from the rows in the order they were scraped to the DataFrame returned\<close>
  "scrape_all_course scraped = drop_duplicates {} (concat_ignore_index scraped)"

text \<open>
  A row of the select on the \<^verbatim>\<open>courses\<close> table. The two averages are numbers that
  the scraper only copies, of a type \<open>'n\<close> left open.
\<close>

record 'n existing_course =
  course_code :: string
  average_gpa :: "'n option"
  average_enrollment :: "'n option"

definition existing_courses :: "'n existing_course list \<Rightarrow> (string \<rightharpoonup> 'n option \<times> 'n option)" where
  \<comment> \<open>the dict comprehension, keyed by course code, holding the two averages\<close>
  "existing_courses response =
     map_of (rev (map (\<lambda>c. (course_code c, (average_gpa c, average_enrollment c))) response))"

record 'n payload = course +
  average_gpa :: "'n option"
  average_enrollment :: "'n option"

definition payload_entry :: "(string \<rightharpoonup> 'n option \<times> 'n option) \<Rightarrow> course \<Rightarrow> 'n payload" where
  "payload_entry existing row =
     (let (avg_gpa, avg_enroll) =
            (case existing (course.course_code row) of
               Some (g, e) \<Rightarrow> (g, e)
             | None \<Rightarrow> (None, None))
      in course.extend row (payload.fields avg_gpa avg_enroll))"

text \<open>
  The loop returns the upserts sent to the store, in order, and the payload still held
  when the rows run out, which is never sent.
\<close>

fun upsert_loop ::
  "(string \<rightharpoonup> 'n option \<times> 'n option) \<Rightarrow> int \<Rightarrow> int \<Rightarrow> 'n payload list \<Rightarrow> 'n payload list list
   \<Rightarrow> dataframe \<Rightarrow> 'n payload list list \<times> 'n payload list" where
  "upsert_loop existing batch_size len upsert_payload sent [] = (sent, upsert_payload)"
| "upsert_loop existing batch_size len upsert_payload sent ((index, row) # rest) =
     (let upsert_payload' = upsert_payload @ [payload_entry existing row]
      in if int (length upsert_payload') = batch_size \<or> index = len - 1
         then upsert_loop existing batch_size len [] (sent @ [upsert_payload']) rest
         else upsert_loop existing batch_size len upsert_payload' sent rest)"

definition upsert_course_data_to_supabase ::
  "'n existing_course list \<Rightarrow> dataframe \<Rightarrow> int \<Rightarrow> 'n payload list list \<times> 'n payload list" where
  "upsert_course_data_to_supabase response course_data batch_size =
     upsert_loop (existing_courses response) batch_size (int (length course_data)) [] [] course_data"

section \<open>The Reddit pipeline (reddit\_scraper.py)\<close>

fun not_followed_by :: "string list \<Rightarrow> string \<Rightarrow> bool" where
  \<comment> \<open>\<^verbatim>\<open>bool(re.search(r"not\s+(w1|w2|...)", body))\<close>\<close>
  "not_followed_by words [] = False"
| "not_followed_by words (c # cs) =
     ((startswith (c # cs) ''not''
        \<and> (let after = drop 3 (c # cs)
            in after \<noteq> [] \<and> is_space (hd after)
               \<and> list_ex (startswith (dropWhile is_space after)) words))
      \<or> not_followed_by words cs)"

definition any_in :: "string list \<Rightarrow> string \<Rightarrow> bool" where
  \<comment> \<open>\<^verbatim>\<open>any(word in body for word in words)\<close>\<close>
  "any_in words body = list_ex (contains body) words"

definition detect_tags :: "string \<Rightarrow> string list" where
  "detect_tags text =
     (let body = lower text;
          is_not_easy = not_followed_by [''easy'', ''light'', ''bird course'', ''straightforward''] body;
          is_not_hard = not_followed_by
            [''hard'', ''tough'', ''difficult'', ''challenging'', ''brutal'', ''intense''] body
      in (if \<not> is_not_easy
             \<and> any_in [''easy'', ''light'', ''bird course'', ''manageable'', ''straightforward''] body
          then [''easy''] else [])
       @ (if \<not> is_not_hard
             \<and> any_in [''hard'', ''tough'', ''difficult'', ''challenging'', ''brutal'', ''intense''] body
          then [''hard''] else [])
       @ (if any_in [''professor'', ''lecturer'', ''teaching'', ''instructor'', ''teaches'', ''taught''] body
          then [''professor_review''] else [])
       @ (if any_in [''exam'', ''midterm'', ''final'', ''assignment'', ''homework'', ''reading'',
                     ''workload'', ''labs'', ''quizzes'', ''group project''] body
          then [''course_structure''] else [])
       @ (if any_in [''recommend'', ''tip'', ''advice'', ''suggest'', ''strategy'', ''resource'',
                     ''how to study''] body
          then [''tips''] else []))"

text \<open>
  The two compiled patterns. Every repetition in them is followed by something its own
  class excludes, so a match at a position is found by taking each repetition as long as
  it goes; \<^verbatim>\<open>search\<close> returns the match at the leftmost position that has one. The
  word boundary before a pattern that starts with a letter asks for no word character just
  before; the one after a letter or digit asks for no word character just after.
\<close>

definition boundary_after :: "string \<Rightarrow> bool" where
  "boundary_after rest \<longleftrightarrow> (case rest of [] \<Rightarrow> True | c # _ \<Rightarrow> \<not> is_word c)"

definition prof_name_at :: "string \<Rightarrow> string option" where
  \<comment> \<open>\<^verbatim>\<open>(?:Prof\.?|Dr\.?)\s+[A-Z][a-z]+\s+[A-Z][a-z]+\b\<close> matched at the head of the
      string; the matched text\<close>
  "prof_name_at s =
     (let title = (if startswith s ''Prof'' then Some ''Prof''
                   else if startswith s ''Dr'' then Some ''Dr'' else None)
      in case title of
           None \<Rightarrow> None
         | Some t \<Rightarrow>
             (let s1 = drop (length t) s;
                  dot = (if startswith s1 ''.'' then ''.'' else []);
                  s2 = drop (length dot) s1;
                  ws1 = takeWhile is_space s2;
                  s3 = dropWhile is_space s2;
                  cap1 = take 1 s3;
                  low1 = takeWhile is_lower (drop 1 s3);
                  s4 = dropWhile is_lower (drop 1 s3);
                  ws2 = takeWhile is_space s4;
                  s5 = dropWhile is_space s4;
                  cap2 = take 1 s5;
                  low2 = takeWhile is_lower (drop 1 s5);
                  s6 = dropWhile is_lower (drop 1 s5)
              in if ws1 \<noteq> [] \<and> cap1 \<noteq> [] \<and> list_all is_upper cap1 \<and> low1 \<noteq> []
                    \<and> ws2 \<noteq> [] \<and> cap2 \<noteq> [] \<and> list_all is_upper cap2 \<and> low2 \<noteq> []
                    \<and> boundary_after s6
                 then Some (t @ dot @ ws1 @ cap1 @ low1 @ ws2 @ cap2 @ low2)
                 else None))"

definition course_code_at :: "string \<Rightarrow> string option" where
  \<comment> \<open>\<^verbatim>\<open>[A-Za-z]{4}\s?\d{3}\b\<close> matched at the head of the string\<close>
  "course_code_at s =
     (let letters = take 4 s;
          s1 = drop 4 s;
          ws = (if s1 \<noteq> [] \<and> is_space (hd s1) then take 1 s1 else []);
          s2 = drop (length ws) s1;
          digits = take 3 s2;
          s3 = drop 3 s2
      in if length letters = 4 \<and> list_all is_alpha letters
            \<and> length digits = 3 \<and> list_all is_digit digits \<and> boundary_after s3
         then Some (letters @ ws @ digits)
         else None)"

fun search_from :: "(string \<Rightarrow> string option) \<Rightarrow> bool \<Rightarrow> string \<Rightarrow> string option" where
  \<comment> \<open>the flag says that the character before is a word character\<close>
  "search_from match_at prev_word [] = None"
| "search_from match_at prev_word (c # cs) =
     (case (if prev_word then None else match_at (c # cs)) of
        Some m \<Rightarrow> Some m
      | None \<Rightarrow> search_from match_at (is_word c) cs)"

definition PROF_NAME_REGEX_search :: "string \<Rightarrow> string option" where
  "PROF_NAME_REGEX_search s = search_from prof_name_at False s"

definition COURSE_CODE_REGEX_search :: "string \<Rightarrow> string option" where
  "COURSE_CODE_REGEX_search s = search_from course_code_at False s"

fun sub_letters_digits :: "string \<Rightarrow> string" where
  \<comment> \<open>\<^verbatim>\<open>re.sub(r"([A-Z]{4})(\d{3})", r"\1 \2", course_code)\<close>\<close>
  "sub_letters_digits (a # b # c # d # x # y # z # rest) =
     (if list_all is_upper [a, b, c, d] \<and> list_all is_digit [x, y, z]
      then [a, b, c, d] @ '' '' @ [x, y, z] @ sub_letters_digits rest
      else a # sub_letters_digits (b # c # d # x # y # z # rest))"
| "sub_letters_digits (a # rest) = a # sub_letters_digits rest"
| "sub_letters_digits [] = []"

definition normalize_course_code :: "string \<Rightarrow> string" where
  \<comment> \<open>what both extractors do with \<^verbatim>\<open>match.group(0)\<close>\<close>
  "normalize_course_code m = sub_letters_digits (upper (remove_spaces m))"

text \<open>
  A comment and a post as the Reddit client gives them, with the fields the scraper reads;
  \<open>created_date\<close> is \<^verbatim>\<open>datetime.utcfromtimestamp(comment.created_utc).date().isoformat()\<close>,
  and \<open>comments\<close> are the post's top-level comments once
  \<^verbatim>\<open>replace_more\<close> has run.
\<close>

record reddit_comment =
  body :: string
  score :: int
  created_date :: string

record post =
  title :: string
  selftext :: string
  url :: string
  is_self :: bool
  over_18 :: bool
  locked :: bool
  score :: int
  num_comments :: int
  comments :: "reddit_comment list"

definition extract_prof_name_from_post :: "post \<Rightarrow> string option" where
  "extract_prof_name_from_post p = PROF_NAME_REGEX_search (title p @ '' '' @ selftext p)"

definition extract_prof_name_from_comment :: "reddit_comment \<Rightarrow> string option" where
  "extract_prof_name_from_comment c = PROF_NAME_REGEX_search (body c)"

definition extract_course_code_from_post :: "post \<Rightarrow> string option" where
  "extract_course_code_from_post p =
     map_option normalize_course_code (COURSE_CODE_REGEX_search (title p @ '' '' @ selftext p))"

definition extract_course_code_from_comment :: "reddit_comment \<Rightarrow> string option" where
  "extract_course_code_from_comment c =
     map_option normalize_course_code (COURSE_CODE_REGEX_search (body c))"

definition is_comment_of_interest :: "reddit_comment \<Rightarrow> bool" where
  "is_comment_of_interest c =
     (let b = strip (body c)
      in if b = [] then False
         else if lower b \<in> set [''[deleted]'', ''[removed]''] then False
         else if reddit_comment.score c < 1 then False
         else if length b < 15 then False
         else True)"

definition is_post_of_interest :: "post \<Rightarrow> bool" where
  "is_post_of_interest p =
     (let full_text = lower (title p) @ '' '' @ lower (selftext p)
      in if \<not> is_self p then False
         else if over_18 p then False
         else if strip (selftext p) = [] then False
         else if \<not> (COURSE_CODE_REGEX_search full_text \<noteq> None
                     \<or> any_in [''courses'', ''course'', ''classes'', ''electives'',
                                ''program requirements'', ''bird courses'', ''easy A''] full_text)
           then False
         else if locked p then False
         else if post.score p < 2 \<or> num_comments p = 0 then False
         else True)"

text \<open>
  The dict built for a comment. \<open>course_code\<close> and \<open>professor_name\<close> start
  as the two variables, which may be \<^verbatim>\<open>None\<close>.
\<close>

record 'f reddit_data =
  text' :: string
  source :: string
  course_code :: "string option"
  source_url :: string
  tags :: "string list"
  professor_name :: "string option"
  sentiment_score :: 'f
  sentiment_label :: string
  upvotes :: int
  created_at :: string

record 'f scraping =
  prof_name :: "string option"
  results :: "'f reddit_data list"

definition scrape_comment ::
  "(string \<Rightarrow> 'f \<times> string) \<Rightarrow> string set \<Rightarrow> string set \<Rightarrow> post \<Rightarrow> string option
   \<Rightarrow> 'f scraping \<Rightarrow> reddit_comment \<Rightarrow> 'f scraping" where
  \<comment> \<open>the body of \<^verbatim>\<open>for comment in post.comments\<close>; every element of
      \<open>results\<close> is also inserted into \<^verbatim>\<open>rag_chunks\<close>. The first argument is
      \<^verbatim>\<open>detect_sentiment\<close>.\<close>
  "scrape_comment sentiment courses professors' p course_code' st c =
     (if \<not> is_comment_of_interest c then st
      else
        let temp_course_code =
              (if course_code' \<noteq> None \<and> course_code' \<noteq> Some []
               then course_code' else extract_course_code_from_comment c)
        in if temp_course_code = None \<or> temp_course_code = Some [] then st
           else
             let prof_name' =
                   (if prof_name st = None \<or> prof_name st = Some []
                    then extract_prof_name_from_comment c else prof_name st);
                 (score', label') = sentiment (body c);
                 comment_data =
                   \<lparr>text' = body c, source = ''reddit'', course_code = temp_course_code,
                    source_url = url p, tags = detect_tags (body c), professor_name = prof_name',
                    sentiment_score = score', sentiment_label = label',
                    upvotes = reddit_comment.score c, created_at = created_date c\<rparr>;
                 (comment_data1, results1) =
                   (if temp_course_code = None \<and> prof_name' \<noteq> None
                    then (comment_data\<lparr>course_code := Some ''general_course''\<rparr>,
                          results st @ [comment_data\<lparr>course_code := Some ''general_course''\<rparr>])
                    else (comment_data, results st));
                 results2 =
                   (if temp_course_code \<noteq> None \<and> the temp_course_code \<in> courses
                    then results1 @
                           [comment_data1\<lparr>professor_name :=
                              (if prof_name' \<noteq> None \<and> the prof_name' \<in> professors'
                               then prof_name' else Some ''general_prof'')\<rparr>]
                    else results1)
             in \<lparr>prof_name = prof_name', results = results2\<rparr>)"

definition or_none :: "string option \<Rightarrow> string option" where
  \<comment> \<open>\<^verbatim>\<open>if not x: x = None\<close>\<close>
  "or_none x = (if x = None \<or> x = Some [] then None else x)"

definition scrape_post ::
  "(string \<Rightarrow> 'f \<times> string) \<Rightarrow> string set \<Rightarrow> string set \<Rightarrow> string set
   \<Rightarrow> 'f reddit_data list \<Rightarrow> post \<Rightarrow> 'f reddit_data list" where
  \<comment> \<open>the body of \<^verbatim>\<open>for post in subreddit.new(limit=1000)\<close>\<close>
  "scrape_post sentiment courses professors' processed_posts_urls results' p =
     (if url p \<in> processed_posts_urls then results'
      else if \<not> is_post_of_interest p then results'
      else results
             (fold (\<lambda>c st. scrape_comment sentiment courses professors' p
                               (or_none (extract_course_code_from_post p)) st c)
                   (comments p)
                   \<lparr>prof_name = or_none (extract_prof_name_from_post p), results = results'\<rparr>))"

definition scrape_and_store ::
  "(string \<Rightarrow> 'f \<times> string) \<Rightarrow> string set \<Rightarrow> string set \<Rightarrow> string set \<Rightarrow> post list
   \<Rightarrow> 'f reddit_data list" where
  \<comment> \<open>\<open>processed_posts_urls\<close> are the source URLs already stored for Reddit, and
      \<open>posts\<close> is what \<^verbatim>\<open>subreddit.new\<close> yields\<close>
  "scrape_and_store sentiment courses professors' processed_posts_urls posts =
     fold (\<lambda>p results'. scrape_post sentiment courses professors' processed_posts_urls results' p)
          posts []"

section \<open>Notions used to state the properties\<close>

definition review_date :: "'f library \<Rightarrow> review_block \<Rightarrow> string option" where
  \<comment> \<open>the date of a list item that is a review and whose time stamp parses\<close>
  "review_date lib block =
     (if \<not> rating_div block then None
      else case timestamp_div block of
             None \<Rightarrow> None
           | Some ts \<Rightarrow> strptime_isoformat lib (remove_ordinals (strip ts)))"

section \<open>Concrete inputs\<close>

definition example_library :: "rat library" where
  "example_library =
     \<lparr>float = (\<lambda>s. if s = ''4.5'' then Some (9 / 2) else if s = ''3.0'' then Some 3
                   else if s = ''80'' then Some 80 else None),
      strptime_isoformat =
        (\<lambda>s. if s = ''Mar 3, 2024'' then Some ''2024-03-03''
             else if s = ''Jan 15, 2024'' then Some ''2024-01-15''
             else if s = ''Apr 21, 2024'' then Some ''2024-04-21'' else None),
      detect_sentiment = (\<lambda>s. (0, ''neutral''))\<rparr>"

definition example_prof :: professor_to_scrape where
  "example_prof =
     \<lparr>professor.id' = ''123'', professor.name = ''Jane Doe'', department = ''Computing'',
      school = ''Queens'', professor.overall_rating = ''4.5'', professor.num_ratings = 1,
      professor.url = ''https://www.ratemyprofessors.com/professor/123'',
      professor_to_scrape.latest_comment_date = None\<rparr>"

definition example_block :: "string \<Rightarrow> string \<Rightarrow> string \<Rightarrow> review_block" where
  "example_block stamp header c =
     \<lparr>rating_div = True, timestamp_div = Some stamp, class_div = Some header,
      quality_elem = Some ''4.5'', difficulty_elem = Some ''3.0'',
      comments_div = Some c, tag_spans = []\<rparr>"

definition example_page :: page where
  "example_page =
     \<lparr>rating_elem = Some ''4.5'', feedback_numbers = [''80%'', ''3.0''], top_tag_spans = [],
      menu_text = ''All Courses'' @ [CHR 0x0A] @ ''CISC121 (3)'' @ [CHR 0x0A] @ ''CISC124 (5)'',
      review_items = [example_block ''Mar 3rd, 2024'' ''CISC121'' ''Great lectures and fair exams.'']\<rparr>"

definition example_updated :: "rat updated_prof" where
  "example_updated =
     \<lparr>updated_prof.id' = ''123'', updated_prof.name = ''Jane Doe'',
      updated_prof.overall_rating = Some (9 / 2), percent_retake = Some 80,
      level_of_difficulty = Some 3, professor_tags = [],
      updated_prof.latest_comment_date = Some ''2024-03-03'', updated_prof.num_ratings = 1,
      updated_prof.url = ''https://www.ratemyprofessors.com/professor/123''\<rparr>"

definition example_batch :: "rat comment_data list" where
  "example_batch =
     [\<lparr>comment_data.text' = ''great lectures and fair exams.'',
       comment_data.source = ''ratemyprofessors'', comment_data.course_code = ''CISC124 (5)'',
       comment_data.professor_name = ''Jane Doe'',
       comment_data.source_url = ''https://www.ratemyprofessors.com/professor/123'',
       comment_data.tags = [], comment_data.created_at = ''2024-03-03'',
       quality_rating = Some (9 / 2), comment_data.sentiment_score = 0,
       comment_data.sentiment_label = ''neutral'', difficulty_rating = Some 3\<rparr>]"

definition example_context :: "rat review_context" where
  "example_context =
     \<lparr>watermark = Some ''2024-02-01'',
      course_code_mappings = [(''CISC121'', Some [''CISC 121''])],
      course_var = ''CISC121'',
      fallback_quality = None, fallback_difficulty = None,
      existing_reviews_set = {}\<rparr>"

definition example_review :: "rat parsed_review" where
  "example_review =
     \<lparr>date = ''2024-03-03'', quality = Some (9 / 2), difficulty = Some 3,
      comment = ''great lectures and fair exams.'', parsed_review.tags = [],
      parsed_review.sentiment_score = 0, parsed_review.sentiment_label = ''neutral'',
      parsed_review.course_code = ''CISC121''\<rparr>"

definition example_scraped :: "string \<Rightarrow> int \<Rightarrow> professor" where
  "example_scraped n k =
     \<lparr>professor.id' = n, professor.name = n, department = ''Computing'', school = ''Queens'',
      professor.overall_rating = ''4.0'', professor.num_ratings = k,
      professor.url = ''https://www.ratemyprofessors.com/professor/'' @ n\<rparr>"

definition example_card :: "string \<Rightarrow> string \<Rightarrow> card" where
  "example_card n href =
     Some \<lparr>card_name = n, card_department = ''Computing'', card_school = ''Queens'',
           card_rating = ''4.0'', card_num_ratings = Some 7, card_href = Some href\<rparr>"

definition example_collected :: "string \<Rightarrow> string \<Rightarrow> professor" where
  "example_collected n i =
     \<lparr>professor.id' = i, professor.name = n, department = ''Computing'', school = ''Queens'',
      professor.overall_rating = ''4.0'', professor.num_ratings = 7,
      professor.url = ''https://www.ratemyprofessors.com/professor/'' @ i\<rparr>"

definition example_course :: "string \<Rightarrow> course" where
  "example_course code =
     \<lparr>course.course_code = code, course_name = Some ''Introduction'',
      course_description = None, offering_faculty = Some ''Arts and Science'',
      learning_hours = None, course_learning_outcomes = [], course_requirements = None,
      course_equivalencies = None, course_units = Some ''3.00''\<rparr>"

definition example_payload :: "string \<Rightarrow> rat option \<Rightarrow> rat option \<Rightarrow> rat payload" where
  "example_payload code gpa enrollment =
     course.extend (example_course code) (payload.fields gpa enrollment)"

definition example_post :: post where
  "example_post =
     \<lparr>title = ''Which electives should I take?'',
      selftext = ''Looking for courses with good profs.'',
      post.url = ''https://www.reddit.com/r/queensuniversity/comments/abc'',
      is_self = True, over_18 = False, locked = False, post.score = 5, num_comments = 1,
      comments = [\<lparr>body = ''Dr. John Smith explains everything really clearly'',
                   reddit_comment.score = 3, created_date = ''2024-05-01''\<rparr>]\<rparr>"

section \<open>Properties of the reconciler\<close>

lemma alpha_not_digit: "is_alpha c \<Longrightarrow> \<not> is_digit c"
  by (auto simp: is_alpha_def is_digit_def is_upper_def is_lower_def less_eq_char_def)

lemma digit_runs_alpha: "list_all is_alpha s \<Longrightarrow> digit_runs [] s = []"
  by (induction s) (simp_all add: alpha_not_digit)

lemma isalpha_not_isdigit: "isalpha s \<Longrightarrow> \<not> isdigit s"
  by (cases s) (auto simp: isalpha_def isdigit_def alpha_not_digit)

lemma find_matches_letters:
  assumes "isalpha (cleaned_code raw_code)"
    and "valid_courses_no_space valid_courses (cleaned_code raw_code) = None"
  shows "find_matches valid_courses d raw_code = None"
proof -
  have "findall_digits (cleaned_code raw_code) = []"
    using assms(1) by (simp add: findall_digits_def isalpha_def digit_runs_alpha)
  moreover have "\<not> isdigit (cleaned_code raw_code)"
    using assms(1) by (rule isalpha_not_isdigit)
  ultimately show ?thesis
    using assms(2) by (simp add: find_matches_def Let_def)
qed

lemma mapping_pass_None:
  "raw_code \<in> set course_codes \<Longrightarrow> find_matches valid_courses d raw_code = None \<Longrightarrow>
   mapping_pass valid_courses d m course_codes = Inl TypeError"
  by (induction course_codes arbitrary: m) (auto split: option.splits)

text \<open>
  C8 (the code departs from the claim). A raw code that consists of letters only and is
  not itself a canonical code sets \<^verbatim>\<open>matches = None\<close>; the length test that follows
  raises TypeError, so the call does not return a mapping at all, whatever else the set of
  raw codes holds.
\<close>

theorem C8_letters_raise:
  assumes "raw_code \<in> set course_codes"
    and "isalpha (cleaned_code raw_code)"
    and "valid_courses_no_space valid_courses (cleaned_code raw_code) = None"
  shows "clean_and_map_course_codes course_codes valid_courses = Inl TypeError"
  unfolding clean_and_map_course_codes_def
  using assms(1) find_matches_letters [OF assms(2) assms(3)] by (rule mapping_pass_None)

theorem C8_letters_raise_witness:
  "''ANAT'' \<in> set [''ANAT''] \<and> isalpha (cleaned_code ''ANAT'') \<and>
   valid_courses_no_space [''CISC 121''] (cleaned_code ''ANAT'') = None \<and>
   clean_and_map_course_codes [''ANAT''] [''CISC 121''] = Inl TypeError"
proof -
  have a: "''ANAT'' \<in> set [''ANAT'']" by simp
  have b: "isalpha (cleaned_code ''ANAT'')" by code_simp
  have c: "valid_courses_no_space [''CISC 121''] (cleaned_code ''ANAT'') = None" by code_simp
  show ?thesis using a b c C8_letters_raise [OF a b c] by simp
qed

text \<open>
  C3, as stated, fails: with \<^verbatim>\<open>"CISC121124"\<close> as the only raw code the derivation pass
  confirms the first three digits of the digit run only, so \<^verbatim>\<open>"CISC 124"\<close> is never
  derived, the mapping pass finds one candidate and the raw code is mapped to
  \<^verbatim>\<open>["CISC 121"]\<close>.
\<close>

theorem C3_single_candidate:
  "find_matches [''CISC 121'', ''CISC 124'']
     (derivation_pass [''CISC121124''] [''CISC 121'', ''CISC 124'']) ''CISC121124''
     = Some [''CISC 121''] \<and>
   clean_and_map_course_codes [''CISC121124''] [''CISC 121'', ''CISC 124'']
     = Inr [(''CISC121124'', Some [''CISC 121''])]"
  by code_simp

text \<open>
  C3, amended: with the canonical codes \<^verbatim>\<open>"CISC 121"\<close> and \<^verbatim>\<open>"CISC 124"\<close>
  and the two raw codes \<^verbatim>\<open>"CISC121124"\<close> and \<^verbatim>\<open>"CISC124"\<close>, visited in
  either order, the mapping pass finds two candidates for \<^verbatim>\<open>"CISC121124"\<close> and maps
  it to \<^verbatim>\<open>None\<close>, and maps \<^verbatim>\<open>"CISC124"\<close> to \<^verbatim>\<open>["CISC 124"]\<close>.
\<close>

theorem C3_two_candidates:
  "find_matches [''CISC 121'', ''CISC 124'']
     (derivation_pass [''CISC121124'', ''CISC124''] [''CISC 121'', ''CISC 124'']) ''CISC121124''
     = Some [''CISC 121'', ''CISC 124''] \<and>
   clean_and_map_course_codes [''CISC121124'', ''CISC124''] [''CISC 121'', ''CISC 124'']
     = Inr [(''CISC121124'', None), (''CISC124'', Some [''CISC 124''])] \<and>
   clean_and_map_course_codes [''CISC124'', ''CISC121124''] [''CISC 121'', ''CISC 124'']
     = Inr [(''CISC124'', Some [''CISC 124'']), (''CISC121124'', None)]"
  by code_simp

section \<open>Properties of the professor collection\<close>

lemma to_scrape_loop_eq:
  "to_scrape_loop prev acc profs =
     acc @ map (\<lambda>prof. attach prof (case prev (professor.name prof) of
                                      None \<Rightarrow> None | Some (n, d) \<Rightarrow> d))
            (filter (\<lambda>prof. case prev (professor.name prof) of
                              None \<Rightarrow> True
                            | Some (n, d) \<Rightarrow> Some (professor.num_ratings prof) \<noteq> n) profs)"
  by (induction profs arbitrary: acc) (auto split: option.splits)

lemma truncate_attach: "professor.truncate (attach prof d) = prof"
  by (simp add: attach_def professor.defs professor_to_scrape.defs)

lemma latest_comment_date_attach: "professor_to_scrape.latest_comment_date (attach prof d) = d"
  by (simp add: attach_def professor.defs professor_to_scrape.defs)

text \<open>
  C5. The professors returned are, in their order and with every scraped field as it was,
  exactly those scraped professors whose name is not in the snapshot or whose rating count
  differs from the stored one; the watermark each of them carries is null for one not in
  the snapshot and the stored watermark for one with a changed count. The snapshot is
  \<^const>\<open>previous_professors_dict\<close>, which leaves out the sentinel row
  \<^verbatim>\<open>general_prof\<close>.
\<close>

theorem C5_to_scrape_exactly:
  "map professor.truncate (to_scrape_professor previous_professors profs) =
     filter (\<lambda>prof. case previous_professors_dict previous_professors (professor.name prof) of
                      None \<Rightarrow> True
                    | Some (n, d) \<Rightarrow> Some (professor.num_ratings prof) \<noteq> n) profs \<and>
   map professor_to_scrape.latest_comment_date (to_scrape_professor previous_professors profs) =
     map (\<lambda>prof. case previous_professors_dict previous_professors (professor.name prof) of
                   None \<Rightarrow> None | Some (n, d) \<Rightarrow> d)
         (filter (\<lambda>prof. case previous_professors_dict previous_professors (professor.name prof) of
                           None \<Rightarrow> True
                         | Some (n, d) \<Rightarrow> Some (professor.num_ratings prof) \<noteq> n) profs)"
  by (simp add: to_scrape_professor_def to_scrape_loop_eq comp_def truncate_attach
                latest_comment_date_attach)

theorem C5_to_scrape_exactly_witness:
  "map professor.truncate
     (to_scrape_professor
        [\<lparr>professor_row.name = ''A'', professor_row.num_ratings = Some 10,
          professor_row.latest_comment_date = Some ''2024-01-01''\<rparr>,
         \<lparr>professor_row.name = ''B'', professor_row.num_ratings = Some 10,
          professor_row.latest_comment_date = Some ''2024-02-02''\<rparr>]
        [example_scraped ''A'' 10, example_scraped ''B'' 12, example_scraped ''C'' 3])
   = [example_scraped ''B'' 12, example_scraped ''C'' 3] \<and>
   map professor_to_scrape.latest_comment_date
     (to_scrape_professor
        [\<lparr>professor_row.name = ''A'', professor_row.num_ratings = Some 10,
          professor_row.latest_comment_date = Some ''2024-01-01''\<rparr>,
         \<lparr>professor_row.name = ''B'', professor_row.num_ratings = Some 10,
          professor_row.latest_comment_date = Some ''2024-02-02''\<rparr>]
        [example_scraped ''A'' 10, example_scraped ''B'' 12, example_scraped ''C'' 3])
   = [Some ''2024-02-02'', None]"
  unfolding C5_to_scrape_exactly [THEN conjunct1] C5_to_scrape_exactly [THEN conjunct2]
  by code_simp

lemma add_card_inv:
  assumes "seen_professor_ids st = set (map professor.id' (professors st))"
    and "distinct (map professor.id' (professors st))"
  shows "seen_professor_ids (add_card st crd) = set (map professor.id' (professors (add_card st crd))) \<and>
         distinct (map professor.id' (professors (add_card st crd)))"
  using assms by (auto simp: add_card_def split: option.splits)

lemma fold_add_card_inv:
  "seen_professor_ids st = set (map professor.id' (professors st)) \<Longrightarrow>
   distinct (map professor.id' (professors st)) \<Longrightarrow>
   seen_professor_ids (fold (\<lambda>crd st. add_card st crd) cards st)
     = set (map professor.id' (professors (fold (\<lambda>crd st. add_card st crd) cards st))) \<and>
   distinct (map professor.id' (professors (fold (\<lambda>crd st. add_card st crd) cards st)))"
proof (induction cards arbitrary: st)
  case Nil
  then show ?case by simp
next
  case (Cons crd cards)
  from add_card_inv [OF Cons.prems, of crd] Cons.IH [of "add_card st crd"]
  show ?case by simp
qed

lemma collect_professors_distinct:
  "collect_professors testing st previous_count rounds = Some collected \<Longrightarrow>
   seen_professor_ids st = set (map professor.id' (professors st)) \<Longrightarrow>
   distinct (map professor.id' (professors st)) \<Longrightarrow>
   distinct (map professor.id' collected)"
proof (induction rounds arbitrary: st previous_count)
  case Nil
  then show ?case by simp
next
  case (Cons round rounds)
  obtain professor_cards show_more where r: "round = (professor_cards, show_more)"
    by (cases round)
  let ?st = "fold (\<lambda>crd st. add_card st crd) (drop previous_count professor_cards) st"
  have inv: "seen_professor_ids ?st = set (map professor.id' (professors ?st)) \<and>
             distinct (map professor.id' (professors ?st))"
    using Cons.prems(2,3) by (rule fold_add_card_inv)
  show ?case
  proof (cases "\<not> show_more \<or> (testing \<and> 20 < length (professors ?st))")
    case True
    with Cons.prems(1) r have "collected = professors ?st"
      by (auto simp: Let_def split: if_splits)
    with inv show ?thesis by simp
  next
    case False
    with Cons.prems(1) r
    have "collect_professors testing ?st (length professor_cards) rounds = Some collected"
      by (auto simp: Let_def split: if_splits)
    from Cons.IH [OF this] inv show ?thesis by simp
  qed
qed

lemma map_of_fold_update:
  "map_of (fold (\<lambda>prof d. AList.update (professor.name prof) prof d) profs d)
   = map_of d ++ map_of (rev (map (\<lambda>p. (professor.name p, p)) profs))"
proof (induction profs arbitrary: d)
  case Nil
  then show ?case by simp
next
  case (Cons p profs)
  show ?case
    by (simp add: Cons.IH update_conv' fun_eq_iff map_add_def split: option.splits)
qed

lemma distinct_fold_update:
  "distinct (map fst d) \<Longrightarrow>
   distinct (map fst (fold (\<lambda>prof d. AList.update (professor.name prof) prof d) profs d))"
  by (induction profs arbitrary: d) (simp_all add: distinct_update)

lemma keys_fold_update:
  "fst ` set (fold (\<lambda>prof d. AList.update (professor.name prof) prof d) profs d)
   = fst ` set d \<union> professor.name ` set profs"
  by (induction profs arbitrary: d) (auto simp: dom_update)

lemma map_of_rev_last:
  "map_of (rev (map (\<lambda>p. (professor.name p, p)) profs)) k = Some p \<Longrightarrow>
   p = last (filter (\<lambda>q. professor.name q = k) profs)"
  by (induction profs rule: rev_induct) (auto split: if_splits)

text \<open>
  C10. When \<^verbatim>\<open>scrape_professors\<close> returns, the professors collected from the cards
  have pairwise distinct ids, the records returned have pairwise distinct names, every
  collected name is returned, and the record returned for a name is the last collected
  professor of that name.
\<close>

theorem C10_one_record_per_name:
  assumes "scrape_professors testing rounds = Some result"
  shows "\<exists>collected.
           collect_professors testing \<lparr>professors = [], seen_professor_ids = {}\<rparr> 0 rounds
             = Some collected \<and>
           distinct (map professor.id' collected) \<and>
           distinct (map professor.name result) \<and>
           set (map professor.name result) = set (map professor.name collected) \<and>
           (\<forall>p \<in> set result.
              p = last (filter (\<lambda>q. professor.name q = professor.name p) collected))"
proof -
  from assms obtain collected where
    c: "collect_professors testing \<lparr>professors = [], seen_professor_ids = {}\<rparr> 0 rounds
          = Some collected"
    and r: "result = map snd (by_name collected)"
    by (auto simp: scrape_professors_def)
  have d: "distinct (map professor.id' collected)"
    using collect_professors_distinct [OF c] by simp
  have dk: "distinct (map fst (by_name collected))"
    unfolding by_name_def by (rule distinct_fold_update) simp
  have mo: "map_of (by_name collected) = map_of (rev (map (\<lambda>p. (professor.name p, p)) collected))"
    unfolding by_name_def by (simp add: map_of_fold_update)
  have entry: "professor.name p = k \<and> p = last (filter (\<lambda>q. professor.name q = k) collected)"
    if "(k, p) \<in> set (by_name collected)" for k p
  proof -
    from that dk have "map_of (by_name collected) k = Some p" by simp
    then have m: "map_of (rev (map (\<lambda>p. (professor.name p, p)) collected)) k = Some p"
      by (simp add: mo)
    from map_of_SomeD [OF m] have "professor.name p = k" by auto
    with map_of_rev_last [OF m] show ?thesis by simp
  qed
  have same: "map professor.name result = map fst (by_name collected)"
    unfolding r using entry by auto
  have names: "set (map professor.name result) = set (map professor.name collected)"
    unfolding same by_name_def using keys_fold_update [of collected "[]"] by simp
  have lastp: "\<forall>p \<in> set result.
                 p = last (filter (\<lambda>q. professor.name q = professor.name p) collected)"
    unfolding r using entry by fastforce
  from c d dk same names lastp show ?thesis by auto
qed

theorem C10_one_record_per_name_witness:
  "scrape_professors False
     [([example_card ''Jane Doe'' ''/professor/1'', example_card ''John Roe'' ''/professor/2'',
        example_card ''Jane Doe'' ''/professor/3'', example_card ''Other Name'' ''/professor/2/''],
       False)]
   = Some [example_collected ''Jane Doe'' ''3'', example_collected ''John Roe'' ''2''] \<and>
   distinct (map professor.name
     [example_collected ''Jane Doe'' ''3'', example_collected ''John Roe'' ''2''])"
proof -
  have h: "scrape_professors False
     [([example_card ''Jane Doe'' ''/professor/1'', example_card ''John Roe'' ''/professor/2'',
        example_card ''Jane Doe'' ''/professor/3'', example_card ''Other Name'' ''/professor/2/''],
       False)]
   = Some [example_collected ''Jane Doe'' ''3'', example_collected ''John Roe'' ''2'']"
    by code_simp
  from C10_one_record_per_name [OF h]
  have "distinct (map professor.name
          [example_collected ''Jane Doe'' ''3'', example_collected ''John Roe'' ''2''])"
    by blast
  with h show ?thesis by simp
qed

section \<open>Properties of the course upsert\<close>





text \<open>
  C4 (the code departs from the claim). The last-row test compares the row's index label
  with the number of rows less one. \<^verbatim>\<open>scrape_all_course\<close> drops duplicate course
  codes without renumbering, so after a drop the last label is larger than that: of three
  scraped rows whose second repeats the code of the first, the two rows kept have the
  labels 0 and 2, neither equals 1, the batch size 50 is not reached, and nothing is sent.
\<close>

theorem C4_last_batch_not_flushed:
  "map fst (scrape_all_course
     [example_course ''CISC 121'', example_course ''CISC 121'', example_course ''CISC 124''])
     = [0, 2] \<and>
   upsert_course_data_to_supabase ([] :: rat existing_course list)
     (scrape_all_course
        [example_course ''CISC 121'', example_course ''CISC 121'', example_course ''CISC 124''])
     50
   = ([], [example_payload ''CISC 121'' None None, example_payload ''CISC 124'' None None])"
  by code_simp

section \<open>Properties of the review scrape\<close>

lemma process_block_course:
  "process_block lib ctx seen block = Append r \<Longrightarrow> parsed_review.course_code r = course_var ctx"
  by (auto simp: process_block_def Let_def split: if_splits option.splits prod.splits)

lemma process_blocks_course:
  "process_blocks lib ctx st blocks = (stop, st') \<Longrightarrow>
   \<forall>r \<in> set (reviews st). parsed_review.course_code r = course_var ctx \<Longrightarrow>
   \<forall>r \<in> set (reviews st'). parsed_review.course_code r = course_var ctx"
proof (induction blocks arbitrary: st)
  case Nil
  then show ?case by simp
next
  case (Cons block rest)
  show ?case
  proof (cases "process_block lib ctx (seen_reviews_set st) block")
    case Stop
    with Cons.prems show ?thesis by simp
  next
    case Skip
    with Cons.prems Cons.IH [of st] show ?thesis by simp
  next
    case (Append r)
    let ?st = "\<lparr>reviews = reviews st @ [r],
                seen_reviews_set = insert (comment r, date r) (seen_reviews_set st)\<rparr>"
    from Append Cons.prems(1) have "process_blocks lib ctx ?st rest = (stop, st')" by simp
    moreover have "\<forall>x \<in> set (reviews ?st). parsed_review.course_code x = course_var ctx"
      using Cons.prems(2) process_block_course [OF Append] by simp
    ultimately show ?thesis by (rule Cons.IH)
  qed
qed

lemma review_loop_course:
  "review_loop lib ctx items st rounds = (left, st') \<Longrightarrow>
   \<forall>r \<in> set (reviews st). parsed_review.course_code r = course_var ctx \<Longrightarrow>
   \<forall>r \<in> set (reviews st'). parsed_review.course_code r = course_var ctx"
proof (induction rounds arbitrary: st)
  case Nil
  obtain stop st1 where p: "process_blocks lib ctx st items = (stop, st1)"
    by (cases "process_blocks lib ctx st items")
  with Nil.prems(1) have "st' = st1" by simp
  with process_blocks_course [OF p Nil.prems(2)] show ?case by simp
next
  case (Cons load_more rounds)
  obtain stop st1 where p: "process_blocks lib ctx st items = (stop, st1)"
    by (cases "process_blocks lib ctx st items")
  note inv = process_blocks_course [OF p Cons.prems(2)]
  show ?case
  proof (cases "\<not> stop \<and> load_more")
    case True
    with Cons.prems(1) p have "review_loop lib ctx items st1 rounds = (left, st')" by simp
    from Cons.IH [OF this inv] show ?thesis .
  next
    case False
    with Cons.prems(1) p have "st' = st1" by (auto split: if_splits)
    with inv show ?thesis by simp
  qed
qed

lemma collect_reviews_course:
  assumes "collect_reviews lib ctx has_reviews items rounds = (left, revs)"
  shows "\<forall>r \<in> set revs. parsed_review.course_code r = course_var ctx"
proof (cases has_reviews)
  case False
  with assms show ?thesis by (simp add: collect_reviews_def)
next
  case True
  obtain l st' where
    rl: "review_loop lib ctx items \<lparr>reviews = [], seen_reviews_set = {}\<rparr> rounds = (l, st')"
    by (cases "review_loop lib ctx items \<lparr>reviews = [], seen_reviews_set = {}\<rparr> rounds")
  with assms True have "revs = reviews st'" by (simp add: collect_reviews_def)
  with review_loop_course [OF rl] show ?thesis by simp
qed

lemma map_singleton_const:
  "length xs = 1 \<Longrightarrow> \<forall>c \<in> set xs. f c = v \<Longrightarrow> map f xs = [v]"
  by (cases xs) auto

text \<open>
  C1 (the code departs from the claim). Every chunk that \<^verbatim>\<open>scrape_professor_comments\<close>
  inserts carries as its course code the last line of the dropdown's text, the value left
  in the variable \<^verbatim>\<open>course\<close>: neither the code the reconciler mapped the review's
  header to, nor \<^verbatim>\<open>general_course\<close>.
\<close>

theorem C1_course_code_is_last_menu_line:
  assumes "scrape_professor_comments lib set_order prof valid_courses pg response rounds
           = Inr (Some (updated, batch))"
  shows "\<forall>c \<in> set batch. comment_data.course_code c = last (split_newline (menu_text pg))"
proof -
  from assms obtain mappings where
    m: "clean_and_map_course_codes (set_order (all_courses (menu_text pg))) valid_courses
        = Inr mappings"
    by (auto simp: scrape_professor_comments_def Let_def split: sum.splits)
  define ctx :: "'a review_context" where "ctx =
    \<lparr>watermark = professor_to_scrape.latest_comment_date prof,
     course_code_mappings = mappings,
     course_var = last (split_newline (menu_text pg)),
     fallback_quality =
       (if 0 < professor.num_ratings prof
        then safe_float lib (map_option strip (rating_elem pg)) else None),
     fallback_difficulty =
       (if 0 < professor.num_ratings prof \<and> 1 < length (feedback_numbers pg)
        then safe_float lib (Some (strip (feedback_numbers pg ! 1))) else None),
     existing_reviews_set = set (map (\<lambda>(t, created). (strip t, created)) response)\<rparr>"
  obtain left revs where
    cr: "collect_reviews lib ctx (0 < professor.num_ratings prof) (review_items pg) rounds
         = (left, revs)"
    by (cases "collect_reviews lib ctx (0 < professor.num_ratings prof) (review_items pg) rounds")
  from assms m cr
  have b: "map comment_data.course_code batch = map parsed_review.course_code revs"
    by (auto simp: scrape_professor_comments_def Let_def ctx_def comp_def
             split: if_splits bool.splits)
  have cv: "course_var ctx = last (split_newline (menu_text pg))"
    by (simp add: ctx_def)
  have "\<forall>x \<in> set (map parsed_review.course_code revs). x = last (split_newline (menu_text pg))"
    using collect_reviews_course [OF cr] cv by simp
  then have "\<forall>x \<in> set (map comment_data.course_code batch).
               x = last (split_newline (menu_text pg))"
    by (simp only: b)
  then show ?thesis by simp
qed

theorem C1_course_code_is_last_menu_line_witness:
  "scrape_professor_comments example_library (\<lambda>xs. xs) example_prof [''CISC 121'', ''CISC 124'']
     example_page [] [False] = Inr (Some (example_updated, example_batch)) \<and>
   scrape_professor_comments example_library rev example_prof [''CISC 121'', ''CISC 124'']
     example_page [] [False] = Inr (Some (example_updated, example_batch)) \<and>
   clean_and_map_course_codes (all_courses (menu_text example_page)) [''CISC 121'', ''CISC 124'']
     = Inr [(''CISC121'', Some [''CISC 121'']), (''CISC124'', Some [''CISC 124''])] \<and>
   clean_and_map_course_codes (rev (all_courses (menu_text example_page)))
       [''CISC 121'', ''CISC 124'']
     = Inr [(''CISC124'', Some [''CISC 124'']), (''CISC121'', Some [''CISC 121''])] \<and>
   map class_div (review_items example_page) = [Some ''CISC121''] \<and>
   map comment_data.course_code example_batch = [''CISC124 (5)'']"
proof -
  have h: "scrape_professor_comments example_library (\<lambda>xs. xs) example_prof
             [''CISC 121'', ''CISC 124''] example_page [] [False]
           = Inr (Some (example_updated, example_batch))"
    by code_simp
  have h': "scrape_professor_comments example_library rev example_prof
              [''CISC 121'', ''CISC 124''] example_page [] [False]
            = Inr (Some (example_updated, example_batch))"
    by code_simp
  have m: "clean_and_map_course_codes (all_courses (menu_text example_page))
             [''CISC 121'', ''CISC 124'']
           = Inr [(''CISC121'', Some [''CISC 121'']), (''CISC124'', Some [''CISC 124''])]"
    by code_simp
  have m': "clean_and_map_course_codes (rev (all_courses (menu_text example_page)))
              [''CISC 121'', ''CISC 124'']
            = Inr [(''CISC124'', Some [''CISC 124'']), (''CISC121'', Some [''CISC 121''])]"
    by code_simp
  have hd: "map class_div (review_items example_page) = [Some ''CISC121'']"
    by code_simp
  have l: "last (split_newline (menu_text example_page)) = ''CISC124 (5)''"
    by code_simp
  have n: "length example_batch = 1"
    by (simp add: example_batch_def)
  from C1_course_code_is_last_menu_line [OF h] l
  have "\<forall>c \<in> set example_batch. comment_data.course_code c = ''CISC124 (5)''"
    by simp
  with n have "map comment_data.course_code example_batch = [''CISC124 (5)'']"
    by (intro map_singleton_const) simp_all
  with h h' m m' hd show ?thesis by simp
qed

lemma process_block_Stop_iff:
  "watermark ctx = Some latest \<Longrightarrow>
   process_block lib ctx seen b = Stop \<longleftrightarrow> (\<exists>d. review_date lib b = Some d \<and> d \<le> latest)"
  by (auto simp: process_block_def review_date_def Let_def
           split: if_splits option.splits prod.splits)

lemma process_block_Append_newer:
  "watermark ctx = Some latest \<Longrightarrow> process_block lib ctx seen b = Append r \<Longrightarrow> latest < date r"
  by (auto simp: process_block_def Let_def split: if_splits option.splits prod.splits)

lemma process_blocks_newer:
  "watermark ctx = Some latest \<Longrightarrow> \<forall>r \<in> set (reviews st). latest < date r \<Longrightarrow>
   \<forall>r \<in> set (reviews (snd (process_blocks lib ctx st blocks))). latest < date r"
proof (induction blocks arbitrary: st)
  case Nil
  then show ?case by simp
next
  case (Cons block rest)
  show ?case
  proof (cases "process_block lib ctx (seen_reviews_set st) block")
    case Stop
    with Cons.prems show ?thesis by simp
  next
    case Skip
    with Cons.prems Cons.IH [of st] show ?thesis by simp
  next
    case (Append r)
    let ?st = "\<lparr>reviews = reviews st @ [r],
                seen_reviews_set = insert (comment r, date r) (seen_reviews_set st)\<rparr>"
    have "\<forall>x \<in> set (reviews ?st). latest < date x"
      using Cons.prems(2) process_block_Append_newer [OF Cons.prems(1) Append] by simp
    from Cons.IH [OF Cons.prems(1) this] Append show ?thesis by simp
  qed
qed

lemma review_loop_newer:
  "watermark ctx = Some latest \<Longrightarrow> \<forall>r \<in> set (reviews st). latest < date r \<Longrightarrow>
   \<forall>r \<in> set (reviews (snd (review_loop lib ctx items st rounds))). latest < date r"
proof (induction rounds arbitrary: st)
  case Nil
  from process_blocks_newer [OF Nil.prems, of lib items] show ?case
    by (simp split: prod.splits)
next
  case (Cons load_more rounds)
  obtain stop st1 where p: "process_blocks lib ctx st items = (stop, st1)"
    by (cases "process_blocks lib ctx st items")
  from process_blocks_newer [OF Cons.prems, of lib items] p
  have inv: "\<forall>r \<in> set (reviews st1). latest < date r" by simp
  from Cons.IH [OF Cons.prems(1) inv] inv p show ?case by simp
qed

lemma process_blocks_stop_at:
  assumes "watermark ctx = Some latest"
    and "review_date lib b = Some d" and "d \<le> latest"
    and "\<forall>x \<in> set pre. \<forall>e. review_date lib x = Some e \<longrightarrow> latest < e"
  shows "process_blocks lib ctx st (pre @ b # post) = (True, snd (process_blocks lib ctx st pre))"
  using assms(4)
proof (induction pre arbitrary: st)
  case Nil
  have "process_block lib ctx (seen_reviews_set st) b = Stop"
    using process_block_Stop_iff [OF assms(1)] assms(2,3) by blast
  then show ?case by simp
next
  case (Cons x pre)
  have "process_block lib ctx (seen_reviews_set st) x \<noteq> Stop"
    using process_block_Stop_iff [OF assms(1), of lib "seen_reviews_set st" x] Cons.prems
    by fastforce
  moreover have "\<forall>y \<in> set pre. \<forall>e. review_date lib y = Some e \<longrightarrow> latest < e"
    using Cons.prems by simp
  ultimately show ?case
    using Cons.IH by (cases "process_block lib ctx (seen_reviews_set st) x") simp_all
qed

text \<open>
  C6. With a watermark, every review collected, at whatever round the loop stands, is
  dated after the watermark. And where the list of items holds a review dated at or before
  the watermark, with every dated review before it newer than the watermark, the loop
  leaves in its first round with just what the items before that review gave: nothing of
  that review or of the items after it is collected.
\<close>

theorem C6_watermark_stops:
  assumes "watermark ctx = Some latest"
  shows "(\<forall>r \<in> set (snd (collect_reviews lib ctx has_reviews items rounds)). latest < date r) \<and>
         (\<forall>pre b post d.
             has_reviews \<and> items = pre @ b # post \<and> review_date lib b = Some d \<and> d \<le> latest \<and>
             (\<forall>x \<in> set pre. \<forall>e. review_date lib x = Some e \<longrightarrow> latest < e) \<longrightarrow>
             collect_reviews lib ctx has_reviews items rounds =
               (True, reviews (snd (process_blocks lib ctx
                                      \<lparr>reviews = [], seen_reviews_set = {}\<rparr> pre))))"
proof (intro conjI allI impI)
  show "\<forall>r \<in> set (snd (collect_reviews lib ctx has_reviews items rounds)). latest < date r"
    using review_loop_newer [OF assms, of "\<lparr>reviews = [], seen_reviews_set = {}\<rparr>" lib items rounds]
    by (simp add: collect_reviews_def split: prod.splits)
next
  fix pre b post d
  assume h: "has_reviews \<and> items = pre @ b # post \<and> review_date lib b = Some d \<and> d \<le> latest \<and>
             (\<forall>x \<in> set pre. \<forall>e. review_date lib x = Some e \<longrightarrow> latest < e)"
  then have pb: "process_blocks lib ctx \<lparr>reviews = [], seen_reviews_set = {}\<rparr> items
                 = (True, snd (process_blocks lib ctx \<lparr>reviews = [], seen_reviews_set = {}\<rparr> pre))"
    using process_blocks_stop_at [OF assms, of lib b d pre] by simp
  have "review_loop lib ctx items \<lparr>reviews = [], seen_reviews_set = {}\<rparr> rounds
        = (True, snd (process_blocks lib ctx \<lparr>reviews = [], seen_reviews_set = {}\<rparr> pre))"
    using pb by (cases rounds) simp_all
  with h show "collect_reviews lib ctx has_reviews items rounds =
               (True, reviews (snd (process_blocks lib ctx
                                      \<lparr>reviews = [], seen_reviews_set = {}\<rparr> pre)))"
    by (simp add: collect_reviews_def)
qed

theorem C6_watermark_stops_witness:
  "watermark example_context = Some ''2024-02-01'' \<and>
   collect_reviews example_library example_context True
     [example_block ''Mar 3rd, 2024'' ''CISC121'' ''Great lectures and fair exams.'',
      example_block ''Jan 15th, 2024'' ''CISC121'' ''Too many assignments overall.'',
      example_block ''Apr 21st, 2024'' ''CISC121'' ''Best course of my degree so far.'']
     [True]
   = (True, [example_review]) \<and>
   ''2024-02-01'' < date example_review"
proof -
  let ?newer = "example_block ''Mar 3rd, 2024'' ''CISC121'' ''Great lectures and fair exams.''"
  let ?older = "example_block ''Jan 15th, 2024'' ''CISC121'' ''Too many assignments overall.''"
  let ?after = "example_block ''Apr 21st, 2024'' ''CISC121'' ''Best course of my degree so far.''"
  have h: "watermark example_context = Some ''2024-02-01''"
    by (simp add: example_context_def)
  have e: "reviews (snd (process_blocks example_library example_context
                           \<lparr>reviews = [], seen_reviews_set = {}\<rparr> [?newer])) = [example_review]"
    by code_simp
  have d: "review_date example_library ?older = Some ''2024-01-15''"
    by code_simp
  have dn: "review_date example_library ?newer = Some ''2024-03-03''"
    by code_simp
  have le: "''2024-01-15'' \<le> ''2024-02-01''"
    by code_simp
  have lt: "''2024-02-01'' < ''2024-03-03''"
    by code_simp
  have pre: "\<forall>x \<in> set [?newer]. \<forall>e. review_date example_library x = Some e \<longrightarrow> ''2024-02-01'' < e"
    using dn lt by simp
  note t = C6_watermark_stops [OF h, of example_library True "[?newer, ?older, ?after]" "[True]"]
  from t have stop: "\<forall>pre b post d.
      True \<and> [?newer, ?older, ?after] = pre @ b # post \<and>
      review_date example_library b = Some d \<and> d \<le> ''2024-02-01'' \<and>
      (\<forall>x \<in> set pre. \<forall>e. review_date example_library x = Some e \<longrightarrow> ''2024-02-01'' < e) \<longrightarrow>
      collect_reviews example_library example_context True [?newer, ?older, ?after] [True] =
        (True, reviews (snd (process_blocks example_library example_context
                               \<lparr>reviews = [], seen_reviews_set = {}\<rparr> pre)))"
    by (rule conjunct2)
  have "collect_reviews example_library example_context True [?newer, ?older, ?after] [True] =
        (True, reviews (snd (process_blocks example_library example_context
                               \<lparr>reviews = [], seen_reviews_set = {}\<rparr> [?newer])))"
    using stop [rule_format, of "[?newer]" ?older "[?after]" "''2024-01-15''"] d le pre by simp
  with e have c: "collect_reviews example_library example_context True
                    [?newer, ?older, ?after] [True] = (True, [example_review])"
    by simp
  from t have "\<forall>r \<in> set (snd (collect_reviews example_library example_context True
                                   [?newer, ?older, ?after] [True])). ''2024-02-01'' < date r"
    by (rule conjunct1)
  with c have "''2024-02-01'' < date example_review" by simp
  with h c show ?thesis by simp
qed

section \<open>Properties of the Reddit pipeline\<close>

text \<open>
  C7 (the code departs from the claim). A comment for which no course code is resolved,
  neither from the post nor from the comment, leaves the results as they were, whether or
  not a professor's name can be found: the loop goes on to the next comment before the
  branch that would store it under \<^verbatim>\<open>general_course\<close> is reached.
\<close>

theorem C7_no_course_code_dropped:
  assumes "extract_course_code_from_comment c = None"
  shows "scrape_comment sentiment courses professors' p None st c = st"
  using assms by (simp add: scrape_comment_def Let_def)

theorem C7_no_course_code_dropped_witness:
  "extract_course_code_from_comment (hd (comments example_post)) = None \<and>
   is_post_of_interest example_post \<and>
   extract_course_code_from_post example_post = None \<and>
   is_comment_of_interest (hd (comments example_post)) \<and>
   extract_prof_name_from_comment (hd (comments example_post)) = Some ''Dr. John Smith'' \<and>
   scrape_comment (\<lambda>s. (0 :: rat, ''neutral'')) {''CISC 124''} {''Dr. John Smith''} example_post None
     \<lparr>prof_name = None, results = []\<rparr> (hd (comments example_post))
     = \<lparr>prof_name = None, results = []\<rparr> \<and>
   scrape_and_store (\<lambda>s. (0 :: rat, ''neutral'')) {''CISC 124''} {''Dr. John Smith''} {}
     [example_post] = []"
proof -
  have h: "extract_course_code_from_comment (hd (comments example_post)) = None"
    by code_simp
  have a: "is_post_of_interest example_post \<and>
           extract_course_code_from_post example_post = None \<and>
           is_comment_of_interest (hd (comments example_post)) \<and>
           extract_prof_name_from_comment (hd (comments example_post)) = Some ''Dr. John Smith''"
    by code_simp
  have s: "scrape_and_store (\<lambda>s. (0 :: rat, ''neutral'')) {''CISC 124''} {''Dr. John Smith''} {}
             [example_post] = []"
    by code_simp
  from C7_no_course_code_dropped [OF h]
  have "scrape_comment (\<lambda>s. (0 :: rat, ''neutral'')) {''CISC 124''} {''Dr. John Smith''}
          example_post None \<lparr>prof_name = None, results = []\<rparr> (hd (comments example_post))
        = \<lparr>prof_name = None, results = []\<rparr>" .
  with h a s show ?thesis by simp
qed

text \<open>
  C9, as stated, fails: the comment has none of the words \<^verbatim>\<open>professor\<close>,
  \<^verbatim>\<open>lecturer\<close>, \<^verbatim>\<open>teaching\<close>, \<^verbatim>\<open>instructor\<close>, \<^verbatim>\<open>teaches\<close>,
  \<^verbatim>\<open>taught\<close> (it says ``prof''), so \<^verbatim>\<open>detect_tags\<close> does not give
  \<^verbatim>\<open>professor_review\<close>.
\<close>

theorem C9_no_professor_review_tag:
  "''professor_review'' \<notin> set (detect_tags
     ''This course (CISC 124) was NOT easy but the prof, Dr. John Smith, was great'')"
  by code_simp

text \<open>
  C9, amended: for that comment \<^verbatim>\<open>detect_tags\<close> returns no tag at all (so neither
  \<^verbatim>\<open>easy\<close>, which the negation check suppresses, nor \<^verbatim>\<open>professor_review\<close>);
  the course-code extractor returns \<^verbatim>\<open>CISC 124\<close> and the professor-name extractor
  \<^verbatim>\<open>Dr. John Smith\<close>, on a comment with that body and on a post with that title.
\<close>

theorem C9_tags_and_extractors:
  "detect_tags ''This course (CISC 124) was NOT easy but the prof, Dr. John Smith, was great''
     = [] \<and>
   not_followed_by [''easy'', ''light'', ''bird course'', ''straightforward'']
     (lower ''This course (CISC 124) was NOT easy but the prof, Dr. John Smith, was great'') \<and>
   extract_course_code_from_comment
     \<lparr>body = ''This course (CISC 124) was NOT easy but the prof, Dr. John Smith, was great'',
      reddit_comment.score = 1, created_date = ''2024-05-01''\<rparr> = Some ''CISC 124'' \<and>
   extract_prof_name_from_comment
     \<lparr>body = ''This course (CISC 124) was NOT easy but the prof, Dr. John Smith, was great'',
      reddit_comment.score = 1, created_date = ''2024-05-01''\<rparr> = Some ''Dr. John Smith'' \<and>
   extract_course_code_from_post
     (example_post\<lparr>title :=
        ''This course (CISC 124) was NOT easy but the prof, Dr. John Smith, was great''\<rparr>)
     = Some ''CISC 124'' \<and>
   extract_prof_name_from_post
     (example_post\<lparr>title :=
        ''This course (CISC 124) was NOT easy but the prof, Dr. John Smith, was great''\<rparr>)
     = Some ''Dr. John Smith''"
  by code_simp

end
